theory Spec2Isabelle
  imports Main
begin

section \<open>Data model of client-event-subscribers.ts\<close>

text \<open>
  Live JavaScript values, as far as the handlers look into them. An object carries its
  address (object identity) and its own properties in insertion order.
\<close>

datatype jsval =
    JUndefined
  | JNull
  | JBool bool
  | JNum int
  | JStr string
  | JObj nat "(string \<times> jsval) list"

datatype error = TypeError

text \<open>Live injectors and DOM nodes are references into the host application.\<close>

type_synonym injector = nat
type_synonym native_node = nat
type_synonym token = nat
type_synonym position = "nat list"

text \<open>\<open>ComponentTreeNode\<close>: the fields the file reads (\<open>node.element\<close>, \<open>node.component\<close>,
  \<open>node.directives\<close>, \<open>node.children\<close>, \<open>node.nativeElement\<close>).\<close>

record component_instance =
  cName :: string
  cIsElement :: bool
  cInstance :: jsval

record directive_instance =
  dName :: string
  dInstance :: jsval

datatype ComponentTreeNode =
  ComponentTreeNode
    (element: string)
    (component: "component_instance option")
    (directives: "directive_instance list")
    (children: "ComponentTreeNode list")
    (nativeElement: "native_node option")

text \<open>\<open>SerializedInjector\<close> as it travels on the bus: \<open>{id, name, type}\<close>.\<close>

record SerializedInjector =
  injId :: nat
  injName :: string
  injType :: string

text \<open>\<open>SerializableComponentInstanceType\<close>, \<open>SerializableDirectiveInstanceType\<close> and
  \<open>SerializableComponentTreeNode\<close>; \<open>resolutionPath\<close> is an optional field.\<close>

record SerializableComponentInstanceType =
  scName :: string
  scIsElement :: bool
  scId :: nat

record SerializableDirectiveInstanceType =
  sdName :: string
  sdId :: nat

datatype SerializableComponentTreeNode =
  SerializableComponentTreeNode
    (sElement: string)
    (sComponent: "SerializableComponentInstanceType option")
    (sDirectives: "SerializableDirectiveInstanceType list")
    (sChildren: "SerializableComponentTreeNode list")
    (resolutionPath: "SerializedInjector list option")

text \<open>The module state of component-tree that this file reads and writes: the map
  \<open>idToInjector\<close> (keys in insertion order) and the set \<open>injectorsSeen\<close>.\<close>

record registry =
  idToInjector :: "(nat \<times> injector) list"
  injectorsSeen :: "nat set"

text \<open>Provider records of the host, and their wire form. The wire form's \<open>index\<close> is
  absent, one number, or a list of numbers.\<close>

record provider_record =
  prToken :: token
  prMulti :: bool

datatype provider_index = NoIndex | SingleIndex nat | MultiIndex "nat list"

record SerializedProviderRecord =
  spToken :: string
  spIndex :: provider_index

type_synonym properties = "(string \<times> jsval) list"
type_synonym directive_properties = "(string \<times> properties) list"
type_synonym profiler_frame = "string \<times> nat"

record ComponentExplorerViewQuery =
  selectedElement :: position
  propertyQuery :: "string list"

record DirectivePosition =
  dpElement :: position
  dpDirective :: "nat option"

text \<open>
  The collaborators the file imports and calls (component-tree, hooks, angular-check,
  state-serializer, the framework's injector): taken as parameters. \<open>liveForest\<close> is the
  forest that \<open>indexForest()\<close> computes when it is called. \<open>getDirectiveId\<close> reads the id
  that the hooks gave an instance; the two injector serializers read and write the
  injector registry, which is why they take it and return it. \<open>inheritedProperty\<close> is
  what a property read finds beyond the own properties of a value.
\<close>

record host =
  appIsAngularInDevMode :: bool
  appIsSupportedAngularVersion :: bool
  appIsAngularIvy :: bool
  hasDiDebugAPIs :: bool
  liveForest :: "ComponentTreeNode list"
  getDirectiveId :: "jsval \<Rightarrow> nat"
  getInjectorFromElementNode :: "native_node option \<Rightarrow> injector option"
  getInjectorResolutionPath :: "injector \<Rightarrow> injector list"
  isElementInjector :: "injector \<Rightarrow> bool"
  serializeElementInjectorWithId ::
    "injector \<Rightarrow> registry \<Rightarrow> SerializedInjector option \<times> registry"
  serializeEnvironmentInjectorWithId ::
    "injector \<Rightarrow> registry \<Rightarrow> SerializedInjector option \<times> registry"
  getLatestComponentState ::
    "ComponentExplorerViewQuery \<Rightarrow> ComponentTreeNode list \<Rightarrow> directive_properties option"
  getInjectorProviders :: "injector \<Rightarrow> provider_record list"
  serializeProviderRecord :: "provider_record \<Rightarrow> bool \<Rightarrow> SerializedProviderRecord"
  serializeDirectiveState :: "jsval \<Rightarrow> properties"
  injectorGet :: "injector \<Rightarrow> token \<Rightarrow> jsval"
  inheritedProperty :: "jsval \<Rightarrow> string \<Rightarrow> jsval"
  aggregateFrames :: "profiler_frame list \<Rightarrow> profiler_frame"

section \<open>prepareForestForSerialization\<close>

text \<open>The inner loop over \<open>getInjectorResolutionPath(nodeInjector)\<close>: its body
  serializes the injector by its kind; an injector whose serialization is \<open>null\<close> is
  passed over (\<open>continue\<close>), the others are pushed in order.\<close>

definition serializedInjectorWithId ::
  "host \<Rightarrow> injector \<Rightarrow> registry \<Rightarrow> SerializedInjector option \<times> registry" where
  "serializedInjectorWithId h i r =
     (if isElementInjector h i then serializeElementInjectorWithId h i r
      else serializeEnvironmentInjectorWithId h i r)"

fun serializeResolutionPath ::
  "host \<Rightarrow> injector list \<Rightarrow> registry \<Rightarrow> SerializedInjector list \<times> registry" where
  "serializeResolutionPath h [] r = ([], r)"
| "serializeResolutionPath h (i # is) r =
     (let (serialized, r1) = serializedInjectorWithId h i r;
          (rest, r2) = serializeResolutionPath h is r1
      in (case serialized of None \<Rightarrow> rest | Some s \<Rightarrow> s # rest, r2))"

definition nodeResolutionPath ::
  "host \<Rightarrow> native_node option \<Rightarrow> registry \<Rightarrow> SerializedInjector list \<times> registry" where
  "nodeResolutionPath h ne r =
     (case getInjectorFromElementNode h ne of
        None \<Rightarrow> ([], r)
      | Some nodeInjector \<Rightarrow> serializeResolutionPath h (getInjectorResolutionPath h nodeInjector) r)"

definition serializeComponent ::
  "host \<Rightarrow> component_instance \<Rightarrow> SerializableComponentInstanceType" where
  "serializeComponent h c =
     \<lparr>scName = cName c, scIsElement = cIsElement c, scId = getDirectiveId h (cInstance c)\<rparr>"

definition serializeDirective ::
  "host \<Rightarrow> directive_instance \<Rightarrow> SerializableDirectiveInstanceType" where
  "serializeDirective h d = \<lparr>sdName = dName d, sdId = getDirectiveId h (dInstance d)\<rparr>"

text \<open>The outer loop over \<open>roots\<close>. A node's children are serialized while its object
  literal is built, that is before its own resolution path; the registry is threaded
  through in that order.\<close>

fun prepareForestForSerialization ::
  "host \<Rightarrow> bool \<Rightarrow> ComponentTreeNode list \<Rightarrow> registry
     \<Rightarrow> SerializableComponentTreeNode list \<times> registry" where
  "prepareForestForSerialization h includeResolutionPath [] r = ([], r)"
| "prepareForestForSerialization h includeResolutionPath (ComponentTreeNode e c ds ch ne # roots) r =
     (let (kids, r1) = prepareForestForSerialization h includeResolutionPath ch r;
          (path, r2) = (if includeResolutionPath
                        then (let (p, r') = nodeResolutionPath h ne r1 in (Some p, r'))
                        else (None, r1));
          (rest, r3) = prepareForestForSerialization h includeResolutionPath roots r2
      in (SerializableComponentTreeNode e (map_option (serializeComponent h) c)
            (map (serializeDirective h) ds) kids path # rest, r3))"

section \<open>State of the backend\<close>

text \<open>What reaches the message bus (\<open>messageBus.emit\<close>) and the console, in order.\<close>

datatype event =
    LatestComponentExplorerView "SerializableComponentTreeNode list" "directive_properties option"
  | NestedProperties DirectivePosition properties "string list"
  | SendProfilerChunk profiler_frame
  | ProfilerResults profiler_frame
  | LatestInjectorProviders SerializedInjector "SerializedProviderRecord list"
  | ComponentTreeDirty

datatype console_entry =
    ConsoleError "string list" ComponentTreeNode
  | ConsoleGroup string string
  | LogInjector injector
  | LogProvider "provider_record option"
  | LogProviders "provider_record option list"
  | LogValue jsval
  | ConsoleGroupEnd

text \<open>\<open>reg\<close> is the injector registry of component-tree; \<open>directiveForest\<close> and
  \<open>indexedForest\<close> are what the hooks last computed; \<open>outbox\<close> and \<open>console\<close> record
  the calls of \<open>messageBus.emit\<close> and \<open>console.*\<close>; \<open>onFrame\<close> and \<open>recorded\<close> are the
  capture module's session; \<open>handlers\<close> records the calls of \<open>messageBus.on\<close>.\<close>

record backend =
  reg :: registry
  directiveForest :: "ComponentTreeNode list"
  indexedForest :: "ComponentTreeNode list"
  outbox :: "event list"
  console :: "console_entry list"
  onFrame :: "(profiler_frame \<Rightarrow> event) option"
  recorded :: "profiler_frame list"
  handlers :: "string list"
  notifierSubscribed :: bool

definition emit :: "event \<Rightarrow> backend \<Rightarrow> backend" where
  "emit e s = s\<lparr>outbox := outbox s @ [e]\<rparr>"

definition consoleWrite :: "console_entry \<Rightarrow> backend \<Rightarrow> backend" where
  "consoleWrite c s = s\<lparr>console := console s @ [c]\<rparr>"

text \<open>\<open>initializeOrGetDirectiveForestHooks().indexForest()\<close>: the hooks recompute the
  forest from the live application; \<open>getDirectiveForest()\<close> and
  \<open>getIndexedDirectiveForest()\<close> return it from then on.\<close>

definition indexForest :: "host \<Rightarrow> backend \<Rightarrow> backend" where
  "indexForest h s = s\<lparr>directiveForest := liveForest h, indexedForest := liveForest h\<rparr>"

text \<open>\<open>Map.has\<close>, \<open>Map.get\<close> and \<open>Map.delete\<close> on the insertion-ordered map.\<close>

definition mapHas :: "('k \<times> 'v) list \<Rightarrow> 'k \<Rightarrow> bool" where
  "mapHas m k = (k \<in> set (map fst m))"

definition mapGet :: "('k \<times> 'v) list \<Rightarrow> 'k \<Rightarrow> 'v option" where
  "mapGet m k = map_of m k"

definition mapDelete :: "'k \<Rightarrow> ('k \<times> 'v) list \<Rightarrow> ('k \<times> 'v) list" where
  "mapDelete k m = filter (\<lambda>kv. fst kv \<noteq> k) m"

section \<open>getLatestComponentExplorerViewCallback\<close>

text \<open>The loop \<open>for (const injectorId of idToInjector.keys())\<close>: a key that is not in
  \<open>injectorsSeen\<close> is deleted. Deleting the current key does not disturb the iteration
  over the others, so the loop visits the keys present when it starts.\<close>

fun cleanupLoop :: "nat list \<Rightarrow> registry \<Rightarrow> registry" where
  "cleanupLoop [] r = r"
| "cleanupLoop (injectorId # ks) r =
     cleanupLoop ks
       (if injectorId \<notin> injectorsSeen r
        then r\<lparr>idToInjector := mapDelete injectorId (idToInjector r)\<rparr>
        else r)"

definition cleanupInjectorIdMappings :: "registry \<Rightarrow> registry" where
  "cleanupInjectorIdMappings r =
     (cleanupLoop (map fst (idToInjector r)) r)\<lparr>injectorsSeen := {}\<rparr>"

text \<open>The \<open>if (hasDiDebugAPIs())\<close> of the handler: with the APIs, the forest is serialized
  with resolution paths and the injector id mappings are cleaned up after it; without,
  the forest is serialized with \<open>includeResolutionPath\<close> at its default, \<open>false\<close>.\<close>

definition snapshotForest ::
  "host \<Rightarrow> backend \<Rightarrow> SerializableComponentTreeNode list \<times> backend" where
  "snapshotForest h s =
     (if hasDiDebugAPIs h
      then (let (forest, r) = prepareForestForSerialization h True (indexedForest s) (reg s)
            in (forest, s\<lparr>reg := cleanupInjectorIdMappings r\<rparr>))
      else (let (forest, r) = prepareForestForSerialization h False (indexedForest s) (reg s)
            in (forest, s\<lparr>reg := r\<rparr>)))"

text \<open>The handler: it reindexes, takes the snapshot, and emits; with a query it emits
  only \<open>if (state)\<close>.\<close>

definition getLatestComponentExplorerViewCallback ::
  "host \<Rightarrow> ComponentExplorerViewQuery option \<Rightarrow> backend \<Rightarrow> backend" where
  "getLatestComponentExplorerViewCallback h query s =
     (let (forest, s1) = snapshotForest h (indexForest h s)
      in (case query of
            None \<Rightarrow> emit (LatestComponentExplorerView forest None) s1
          | Some q \<Rightarrow>
              (case getLatestComponentState h q (directiveForest s1) of
                 None \<Rightarrow> s1
               | Some directiveProperties \<Rightarrow>
                   emit (LatestComponentExplorerView forest (Some directiveProperties)) s1)))"

text \<open>The snapshot as the specification words it, for comparison: the collection pass
  first, the serialization after it.\<close>

definition snapshotCollectingFirst ::
  "host \<Rightarrow> backend \<Rightarrow> SerializableComponentTreeNode list \<times> backend" where
  "snapshotCollectingFirst h s =
     (let (forest, r) = prepareForestForSerialization h True (indexedForest s)
                          (cleanupInjectorIdMappings (reg s))
      in (forest, s\<lparr>reg := r\<rparr>))"

section \<open>getNestedPropertiesCallback\<close>

text \<open>Modelled from the spec: \<open>queryDirectiveForest\<close> of component-tree is not in this
  file. A position is a path of child indices from a root; a position that names no node
  gives no node.\<close>

fun queryDirectiveForest :: "position \<Rightarrow> ComponentTreeNode list \<Rightarrow> ComponentTreeNode option" where
  "queryDirectiveForest [] forest = None"
| "queryDirectiveForest [i] forest = (if i < length forest then Some (forest ! i) else None)"
| "queryDirectiveForest (i # is) forest =
     (if i < length forest then queryDirectiveForest is (children (forest ! i)) else None)"

text \<open>\<open>!data\<close> and \<open>data[prop]\<close>. Reading a property of \<open>undefined\<close> or \<open>null\<close> throws a
  TypeError; a property that is not an own property is looked up along the prototype
  chain, which the host decides.\<close>

fun truthy :: "jsval \<Rightarrow> bool" where
  "truthy JUndefined = False"
| "truthy JNull = False"
| "truthy (JBool b) = b"
| "truthy (JNum n) = (n \<noteq> 0)"
| "truthy (JStr s) = (s \<noteq> [])"
| "truthy (JObj a ps) = True"

fun getProperty :: "host \<Rightarrow> jsval \<Rightarrow> string \<Rightarrow> error + jsval" where
  "getProperty h JUndefined prop = Inl TypeError"
| "getProperty h JNull prop = Inl TypeError"
| "getProperty h (JObj a ps) prop =
     (case map_of ps prop of
        Some v \<Rightarrow> Inr v
      | None \<Rightarrow> Inr (inheritedProperty h (JObj a ps) prop))"
| "getProperty h v prop = Inr (inheritedProperty h v prop)"

text \<open>The loop \<open>for (const prop of propPath)\<close>: it logs when a segment is falsy and goes
  on to the next segment.\<close>

fun walkPropPath ::
  "host \<Rightarrow> string list \<Rightarrow> ComponentTreeNode \<Rightarrow> string list \<Rightarrow> jsval \<Rightarrow> backend
     \<Rightarrow> (error \<times> backend) + (jsval \<times> backend)" where
  "walkPropPath h propPath node [] data s = Inr (data, s)"
| "walkPropPath h propPath node (prop # rest) data s =
     (case getProperty h data prop of
        Inl e \<Rightarrow> Inl (e, s)
      | Inr v \<Rightarrow>
          walkPropPath h propPath node rest v
            (if \<not> truthy v then consoleWrite (ConsoleError propPath node) s else s))"

definition currentInstance :: "DirectivePosition \<Rightarrow> ComponentTreeNode \<Rightarrow> jsval option" where
  "currentInstance pos node =
     (case dpDirective pos of
        None \<Rightarrow> map_option cInstance (component node)
      | Some i \<Rightarrow>
          (if i < length (directives node) then Some (dInstance (directives node ! i))
           else None))"

definition getNestedPropertiesCallback ::
  "host \<Rightarrow> DirectivePosition \<Rightarrow> string list \<Rightarrow> backend \<Rightarrow> (error \<times> backend) + backend" where
  "getNestedPropertiesCallback h pos propPath s =
     (let emitEmpty = emit (NestedProperties pos [] propPath) s
      in (case queryDirectiveForest (dpElement pos) (indexedForest s) of
            None \<Rightarrow> Inr emitEmpty
          | Some node \<Rightarrow>
              (case currentInstance pos node of
                 None \<Rightarrow> Inr emitEmpty
               | Some inst \<Rightarrow>
                   (case walkPropPath h propPath node propPath inst s of
                      Inl err \<Rightarrow> Inl err
                    | Inr (data, s1) \<Rightarrow>
                        Inr (emit (NestedProperties pos (serializeDirectiveState h data) propPath)
                               s1)))))"

section \<open>getInjectorProvidersCallback and logProvider\<close>

text \<open>\<open>serializeProviderRecord(providerRecord)\<close> with its second argument left out is
  the call with the flag off.\<close>

definition getInjectorProvidersCallback :: "host \<Rightarrow> SerializedInjector \<Rightarrow> backend \<Rightarrow> backend" where
  "getInjectorProvidersCallback h injector s =
     (if \<not> mapHas (idToInjector (reg s)) (injId injector) then s
      else (case mapGet (idToInjector (reg s)) (injId injector) of
              None \<Rightarrow> s
            | Some live \<Rightarrow>
                (let providerRecords = getInjectorProviders h live;
                     serializedProviderRecords =
                       (if injType injector = ''environment''
                        then map (\<lambda>providerRecord. serializeProviderRecord h providerRecord True)
                               providerRecords
                        else map (\<lambda>providerRecord. serializeProviderRecord h providerRecord False)
                               providerRecords)
                 in emit (LatestInjectorProviders injector serializedProviderRecords) s)))"

text \<open>\<open>providerRecords[index]\<close>: \<open>undefined\<close> out of range.\<close>

definition recordAt :: "'a list \<Rightarrow> nat \<Rightarrow> 'a option" where
  "recordAt xs i = (if i < length xs then Some (xs ! i) else None)"

definition groupStyle :: "SerializedInjector \<Rightarrow> string" where
  "groupStyle serializedInjector =
     ''color: '' @ (if injType serializedInjector = ''element'' then ''#a7d5a9'' else ''#f05057'')
       @ ''; font-size: 1.25rem; font-weight: bold;''"

text \<open>\<open>provider.token\<close> on \<open>undefined\<close> throws, and so does \<open>.map\<close> on an absent index;
  what was logged before the throw stays logged.\<close>

definition logProvider ::
  "host \<Rightarrow> SerializedInjector \<Rightarrow> SerializedProviderRecord \<Rightarrow> backend
     \<Rightarrow> (error \<times> backend) + backend" where
  "logProvider h serializedInjector serializedProvider s =
     (if \<not> mapHas (idToInjector (reg s)) (injId serializedInjector) then Inr s
      else (case mapGet (idToInjector (reg s)) (injId serializedInjector) of
              None \<Rightarrow> Inr s
            | Some injector \<Rightarrow>
                (let providerRecords = getInjectorProviders h injector;
                     s1 = consoleWrite
                            (ConsoleGroup (''%c'' @ injName serializedInjector)
                               (groupStyle serializedInjector)) s;
                     s2 = consoleWrite (LogInjector injector) s1
                 in (case spIndex serializedProvider of
                       SingleIndex index \<Rightarrow>
                         (let provider = recordAt providerRecords index;
                              s3 = consoleWrite (LogProvider provider) s2
                          in (case provider of
                                None \<Rightarrow> Inl (TypeError, s3)
                              | Some p \<Rightarrow>
                                  Inr (consoleWrite ConsoleGroupEnd
                                         (consoleWrite
                                            (LogValue (injectorGet h injector (prToken p))) s3))))
                     | MultiIndex indices \<Rightarrow>
                         (let providers = map (recordAt providerRecords) indices;
                              s3 = consoleWrite (LogProviders providers) s2
                          in (case providers of
                                [] \<Rightarrow> Inl (TypeError, s3)
                              | None # _ \<Rightarrow> Inl (TypeError, s3)
                              | Some p # _ \<Rightarrow>
                                  Inr (consoleWrite ConsoleGroupEnd
                                         (consoleWrite
                                            (LogValue (injectorGet h injector (prToken p))) s3))))
                     | NoIndex \<Rightarrow> Inl (TypeError, s2)))))"

section \<open>Profiling\<close>

text \<open>Modelled from the spec: \<open>start\<close> and \<open>stop\<close> of hooks/capture are not in this file.
  \<open>start(onFrame)\<close> goes from Idle (\<open>onFrame = None\<close>) to Recording and installs the
  callback, which is invoked once per instrumented cycle with that cycle's frame, at
  once; \<open>start\<close> while recording is ignored; \<open>stop()\<close> goes back to Idle, uninstalls the
  callback and returns one aggregate of the frames seen since \<open>start\<close>; no frame is
  delivered while Idle.\<close>

definition startProfiling :: "(profiler_frame \<Rightarrow> event) \<Rightarrow> backend \<Rightarrow> backend" where
  "startProfiling cb s =
     (case onFrame s of
        None \<Rightarrow> s\<lparr>onFrame := Some cb, recorded := []\<rparr>
      | Some _ \<Rightarrow> s)"

definition stopProfiling :: "host \<Rightarrow> backend \<Rightarrow> profiler_frame \<times> backend" where
  "stopProfiling h s = (aggregateFrames h (recorded s), s\<lparr>onFrame := None, recorded := []\<rparr>)"

definition instrumentedCycle :: "profiler_frame \<Rightarrow> backend \<Rightarrow> backend" where
  "instrumentedCycle frame s =
     (case onFrame s of
        None \<Rightarrow> s
      | Some cb \<Rightarrow> emit (cb frame) (s\<lparr>recorded := recorded s @ [frame]\<rparr>))"

text \<open>The two handlers of this file: the callback handed to \<open>startProfiling\<close> emits one
  \<open>sendProfilerChunk\<close> with the frame.\<close>

definition startProfilingCallback :: "backend \<Rightarrow> backend" where
  "startProfilingCallback s = startProfiling (\<lambda>frame. SendProfilerChunk frame) s"

definition stopProfilingCallback :: "host \<Rightarrow> backend \<Rightarrow> backend" where
  "stopProfilingCallback h s =
     (let (result, s1) = stopProfiling h s in emit (ProfilerResults result) s1)"

datatype profiler_input = StartProfiling | Cycle profiler_frame | StopProfiling

fun profilerStep :: "host \<Rightarrow> backend \<Rightarrow> profiler_input \<Rightarrow> backend" where
  "profilerStep h s StartProfiling = startProfilingCallback s"
| "profilerStep h s (Cycle frame) = instrumentedCycle frame s"
| "profilerStep h s StopProfiling = stopProfilingCallback h s"

definition runProfiler :: "host \<Rightarrow> backend \<Rightarrow> profiler_input list \<Rightarrow> backend" where
  "runProfiler h s inputs = foldl (profilerStep h) s inputs"

section \<open>subscribeToClientEvents\<close>

definition on :: "string \<Rightarrow> backend \<Rightarrow> backend" where
  "on topic s = s\<lparr>handlers := handlers s @ [topic]\<rparr>"

definition setupInspector :: "backend \<Rightarrow> backend" where
  "setupInspector s =
     on ''removeHighlightOverlay''
       (on ''createHighlightOverlay'' (on ''inspectorEnd'' (on ''inspectorStart'' s)))"

definition subscribeToClientEvents :: "host \<Rightarrow> backend \<Rightarrow> backend" where
  "subscribeToClientEvents h s =
     (let s1 = foldl (\<lambda>acc topic. on topic acc) s
                 [''shutdown'', ''getLatestComponentExplorerView'', ''queryNgAvailability'',
                  ''startProfiling'', ''stopProfiling'', ''setSelectedComponent'',
                  ''getNestedProperties'', ''getRoutes'', ''updateState'', ''enableTimingAPI'',
                  ''disableTimingAPI'', ''getInjectorProviders'', ''logProvider'']
      in if appIsAngularInDevMode h \<and> appIsSupportedAngularVersion h \<and> appIsAngularIvy h
         then (setupInspector s1)\<lparr>notifierSubscribed := True\<rparr>
         else s1)"



section \<open>A concrete host\<close>

text \<open>Modelled from the spec: \<open>serializeElementInjectorWithId\<close> and
  \<open>serializeEnvironmentInjectorWithId\<close> of component-tree are not in this file.
  \<open>idFor\<close> returns the existing id if the injector has one, else allocates the smallest
  unused non-negative integer and records the mapping, and marks the id as seen in this
  pass. Serializing an injector looks its id up through \<open>idFor\<close> and classifies its kind;
  an injector with no derivable display name cannot be serialized.\<close>

fun firstUnused :: "nat \<Rightarrow> nat \<Rightarrow> nat list \<Rightarrow> nat" where
  "firstUnused 0 n used = n"
| "firstUnused (Suc fuel) n used = (if n \<in> set used then firstUnused fuel (Suc n) used else n)"

definition idFor :: "injector \<Rightarrow> registry \<Rightarrow> nat \<times> registry" where
  "idFor injector r =
     (case find (\<lambda>kv. snd kv = injector) (idToInjector r) of
        Some kv \<Rightarrow> (fst kv, r\<lparr>injectorsSeen := insert (fst kv) (injectorsSeen r)\<rparr>)
      | None \<Rightarrow>
          (let k = firstUnused (length (idToInjector r)) 0 (map fst (idToInjector r))
           in (k, \<lparr>idToInjector = idToInjector r @ [(k, injector)],
                   injectorsSeen = insert k (injectorsSeen r)\<rparr>)))"

definition serializeInjectorWithId ::
  "(injector \<Rightarrow> string option) \<Rightarrow> string \<Rightarrow> injector \<Rightarrow> registry
     \<Rightarrow> SerializedInjector option \<times> registry" where
  "serializeInjectorWithId nameOf kind injector r =
     (let (k, r1) = idFor injector r
      in (map_option (\<lambda>n. \<lparr>injId = k, injName = n, injType = kind\<rparr>) (nameOf injector), r1))"

text \<open>An application with one root component, one directive on it and one child element.
  The root's DOM node 10 has the element injector 100, whose chain is 100, then 13 (which
  has no display name), then the environment injector 200. The child has no DOM node.\<close>

definition demoRoot :: ComponentTreeNode where
  "demoRoot =
     ComponentTreeNode ''app-root''
       (Some \<lparr>cName = ''AppComponent'', cIsElement = False,
              cInstance = JObj 1 [(''title'', JStr ''demo''), (''user'', JObj 3 [(''name'', JStr ''ann'')])]\<rparr>)
       [\<lparr>dName = ''NgIf'', dInstance = JObj 2 []\<rparr>]
       [ComponentTreeNode ''div'' None [] [] None]
       (Some 10)"

definition demoInjectorName :: "injector \<Rightarrow> string option" where
  "demoInjectorName i =
     (if i = 100 then Some ''AppComponent'' else if i = 200 then Some ''AppModule'' else None)"

definition demoHost :: host where
  "demoHost =
     \<lparr>appIsAngularInDevMode = True,
      appIsSupportedAngularVersion = True,
      appIsAngularIvy = True,
      hasDiDebugAPIs = True,
      liveForest = [demoRoot],
      getDirectiveId = (\<lambda>v. case v of JObj a ps \<Rightarrow> a | _ \<Rightarrow> 0),
      getInjectorFromElementNode = (\<lambda>ne. if ne = Some 10 then Some 100 else None),
      getInjectorResolutionPath = (\<lambda>i. if i = 100 then [100, 13, 200] else [i]),
      isElementInjector = (\<lambda>i. i < 200),
      serializeElementInjectorWithId = serializeInjectorWithId demoInjectorName ''element'',
      serializeEnvironmentInjectorWithId =
        serializeInjectorWithId demoInjectorName ''environment'',
      getLatestComponentState =
        (\<lambda>q forest. map_option (\<lambda>n. [(element n, [])])
                       (queryDirectiveForest (selectedElement q) forest)),
      getInjectorProviders =
        (\<lambda>i. if i = 200
              then [\<lparr>prToken = 5, prMulti = True\<rparr>, \<lparr>prToken = 6, prMulti = False\<rparr>,
                    \<lparr>prToken = 5, prMulti = True\<rparr>]
              else [\<lparr>prToken = 7, prMulti = False\<rparr>]),
      serializeProviderRecord =
        (\<lambda>p env. \<lparr>spToken = (if env then ''env'' else ''el''),
                    spIndex = (if prMulti p \<and> env then MultiIndex [0, 2] else SingleIndex 0)\<rparr>),
      serializeDirectiveState = (\<lambda>v. case v of JObj a ps \<Rightarrow> ps | _ \<Rightarrow> []),
      injectorGet = (\<lambda>i t. JNum (int (i + t))),
      inheritedProperty = (\<lambda>v prop. JUndefined),
      aggregateFrames = (\<lambda>fs. (''aggregate'', sum_list (map snd fs)))\<rparr>"

definition emptyRegistry :: registry where
  "emptyRegistry = \<lparr>idToInjector = [], injectorsSeen = {}\<rparr>"

definition initialBackend :: backend where
  "initialBackend =
     \<lparr>reg = emptyRegistry, directiveForest = [], indexedForest = [], outbox = [],
      console = [], onFrame = None, recorded = [], handlers = [], notifierSubscribed = False\<rparr>"

section \<open>Properties to state\<close>

text \<open>A serialized node projects a tree node: same element, component and directives
  reduced to names and ids, children projected one for one. With resolution paths
  requested the node carries one, and it is empty when the node's DOM node has no
  injector; without, the field is absent.\<close>

fun projects ::
  "host \<Rightarrow> bool \<Rightarrow> ComponentTreeNode \<Rightarrow> SerializableComponentTreeNode \<Rightarrow> bool" where
  "projects h inc (ComponentTreeNode e c ds ch ne) (SerializableComponentTreeNode e' c' ds' ch' p) =
     (e' = e \<and> c' = map_option (serializeComponent h) c \<and> ds' = map (serializeDirective h) ds
      \<and> list_all2 (projects h inc) ch ch'
      \<and> (if inc then p \<noteq> None \<and> (getInjectorFromElementNode h ne = None \<longrightarrow> p = Some [])
         else p = None))"


text \<open>What the claims about resolution paths are stated with. \<open>registryAfter\<close> is the
  registry once every injector of a chain has been handed to its serializer, in order;
  \<open>serializedAt\<close> is what the serializer returns for the \<open>k\<close>-th injector of a chain, called
  in the registry that the injectors before it have left; \<open>expectedPath\<close> keeps, in order,
  those results that are not \<open>null\<close>.\<close>

definition registryAfter :: "host \<Rightarrow> registry \<Rightarrow> injector list \<Rightarrow> registry" where
  "registryAfter h r chain = foldl (\<lambda>acc i. snd (serializedInjectorWithId h i acc)) r chain"

definition serializedAt :: "host \<Rightarrow> registry \<Rightarrow> injector list \<Rightarrow> nat \<Rightarrow> SerializedInjector option" where
  "serializedAt h r chain k =
     fst (serializedInjectorWithId h (chain ! k) (registryAfter h r (take k chain)))"

definition expectedPath :: "host \<Rightarrow> registry \<Rightarrow> injector list \<Rightarrow> SerializedInjector list" where
  "expectedPath h r chain =
     concat (map (\<lambda>k. case serializedAt h r chain k of None \<Rightarrow> [] | Some s \<Rightarrow> [s])
               [0..<length chain])"




text \<open>The expected paths of a sequence of chains served one after the other; used in the
  proofs only.\<close>

fun pathsFrom :: "host \<Rightarrow> registry \<Rightarrow> injector list list \<Rightarrow> SerializedInjector list option list" where
  "pathsFrom h r [] = []"
| "pathsFrom h r (chain # cs) =
     Some (expectedPath h r chain) # pathsFrom h (registryAfter h r chain) cs"

section \<open>States used in the examples\<close>

text \<open>The state after an earlier snapshot: the registry knows the live injector 100 as 3
  and an injector that has since vanished as 7; the seen-set was cleared.\<close>

definition staleBackend :: backend where
  "staleBackend =
     indexForest demoHost
       (initialBackend\<lparr>reg := \<lparr>idToInjector = [(3, 100), (7, 55)], injectorsSeen = {}\<rparr>\<rparr>)"

text \<open>The state after a first snapshot of the demo application.\<close>

definition demoSnapshot :: backend where
  "demoSnapshot = getLatestComponentExplorerViewCallback demoHost None initialBackend"

section \<open>Auxiliary lemmas and the claims\<close>


lemma prepare_projects:
  "list_all2 (projects h inc) roots (fst (prepareForestForSerialization h inc roots r))"
proof (induction h inc roots r rule: prepareForestForSerialization.induct)
  case (1 h inc r)
  then show ?case by simp
next
  case (2 h inc e c ds ch ne roots r)
  then show ?case
    by (auto simp: nodeResolutionPath_def split: prod.splits option.splits)
qed

lemma prepare_without_paths:
  "snd (prepareForestForSerialization h False roots r) = r"
  by (induction h False roots r rule: prepareForestForSerialization.induct)
     (auto split: prod.splits)

lemma cleanupLoop_filter:
  "cleanupLoop ks r =
     r\<lparr>idToInjector := filter (\<lambda>kv. fst kv \<in> set ks \<longrightarrow> fst kv \<in> injectorsSeen r) (idToInjector r)\<rparr>"
proof (induction ks arbitrary: r)
  case Nil
  then show ?case by simp
next
  case (Cons k ks)
  show ?case
    by (auto simp: Cons mapDelete_def intro!: filter_cong)
qed

lemma cleanup_eq:
  "cleanupInjectorIdMappings r =
     \<lparr>idToInjector = filter (\<lambda>kv. fst kv \<in> injectorsSeen r) (idToInjector r), injectorsSeen = {}\<rparr>"
proof -
  have "filter (\<lambda>kv. fst kv \<in> set (map fst (idToInjector r)) \<longrightarrow> fst kv \<in> injectorsSeen r)
          (idToInjector r)
        = filter (\<lambda>kv. fst kv \<in> injectorsSeen r) (idToInjector r)"
    by (rule filter_cong) auto
  then show ?thesis
    by (simp add: cleanupInjectorIdMappings_def cleanupLoop_filter)
qed











lemma length_pathsFrom: "length (pathsFrom h r cs) = length cs"
  by (induction cs arbitrary: r) simp_all





lemmas demo_defs = demoHost_def demoRoot_def demoInjectorName_def emptyRegistry_def
  initialBackend_def serializeInjectorWithId_def idFor_def serializedInjectorWithId_def
  nodeResolutionPath_def serializeComponent_def serializeDirective_def


lemma snapshotForest_reindexed:
  "getLatestComponentExplorerViewCallback h query s =
     (let (forest, s1) = snapshotForest h (indexForest h s)
      in s1\<lparr>outbox := outbox s1 @
            (case query of
               None \<Rightarrow> [LatestComponentExplorerView forest None]
             | Some q \<Rightarrow>
                 (case getLatestComponentState h q (directiveForest s1) of
                    None \<Rightarrow> []
                  | Some props \<Rightarrow> [LatestComponentExplorerView forest (Some props)]))\<rparr>)"
  by (simp add: getLatestComponentExplorerViewCallback_def emit_def
      split: prod.splits option.splits)

lemma snapshotForest_fst:
  "fst (snapshotForest h s) =
     fst (prepareForestForSerialization h (hasDiDebugAPIs h) (indexedForest s) (reg s))"
  by (simp add: snapshotForest_def split: prod.splits)

lemma snapshotForest_frame:
  "outbox (snd (snapshotForest h s)) = outbox s
   \<and> directiveForest (snd (snapshotForest h s)) = directiveForest s
   \<and> indexedForest (snd (snapshotForest h s)) = indexedForest s"
  by (simp add: snapshotForest_def split: prod.splits)

text \<open>C1, as amended. Every getLatestComponentExplorerView command forces a reindex (the
  hooks' forests become the live forest) and emits at most one latestComponentExplorerView
  event, whose forest is the serialization of the live forest: exactly one with payload
  \<open>{forest}\<close> when no query is supplied; with a query, exactly one with payload
  \<open>{forest, properties}\<close> when the queried component state is found, and none when it is
  not found.\<close>

theorem explorer_view_reindexes_and_answers:
  "indexedForest (getLatestComponentExplorerViewCallback h query s) = liveForest h
   \<and> directiveForest (getLatestComponentExplorerViewCallback h query s) = liveForest h
   \<and> outbox (getLatestComponentExplorerViewCallback h query s) =
       outbox s @
         (case query of
            None \<Rightarrow>
              [LatestComponentExplorerView
                 (fst (prepareForestForSerialization h (hasDiDebugAPIs h) (liveForest h) (reg s)))
                 None]
          | Some q \<Rightarrow>
              (case getLatestComponentState h q (liveForest h) of
                 None \<Rightarrow> []
               | Some props \<Rightarrow>
                   [LatestComponentExplorerView
                      (fst (prepareForestForSerialization h (hasDiDebugAPIs h) (liveForest h)
                              (reg s)))
                      (Some props)]))"
proof -
  obtain forest s1 where sn: "snapshotForest h (indexForest h s) = (forest, s1)"
    by (cases "snapshotForest h (indexForest h s)")
  have f: "forest = fst (prepareForestForSerialization h (hasDiDebugAPIs h) (liveForest h) (reg s))"
    using snapshotForest_fst [of h "indexForest h s"] sn by (simp add: indexForest_def)
  have fr: "outbox s1 = outbox s \<and> directiveForest s1 = liveForest h \<and> indexedForest s1 = liveForest h"
    using snapshotForest_frame [of h "indexForest h s"] sn by (simp add: indexForest_def)
  show ?thesis
    by (simp add: snapshotForest_reindexed sn f [symmetric] fr split: option.splits)
qed

text \<open>C1 as stated fails: a query whose position names no node of the forest gets no event
  at all.\<close>

theorem explorer_view_stale_query_counterexample:
  "outbox (getLatestComponentExplorerViewCallback demoHost
             (Some \<lparr>selectedElement = [4], propertyQuery = []\<rparr>) initialBackend) = []"
  by (simp add: snapshotForest_reindexed snapshotForest_def indexForest_def demo_defs
      cleanupInjectorIdMappings_def mapDelete_def split: prod.splits)

text \<open>C1, instances: the demo application without a query, and the empty forest without a
  query, which gives \<open>{forest: []}\<close>.\<close>

theorem explorer_view_reindexes_and_answers_witness:
  "outbox (getLatestComponentExplorerViewCallback demoHost None initialBackend) =
     [LatestComponentExplorerView
        [SerializableComponentTreeNode ''app-root''
           (Some \<lparr>scName = ''AppComponent'', scIsElement = False, scId = 1\<rparr>)
           [\<lparr>sdName = ''NgIf'', sdId = 2\<rparr>]
           [SerializableComponentTreeNode ''div'' None [] [] (Some [])]
           (Some [\<lparr>injId = 0, injName = ''AppComponent'', injType = ''element''\<rparr>,
                  \<lparr>injId = 2, injName = ''AppModule'', injType = ''environment''\<rparr>])]
        None]
   \<and> outbox (getLatestComponentExplorerViewCallback (demoHost\<lparr>liveForest := []\<rparr>) None
               initialBackend) = [LatestComponentExplorerView [] None]
   \<and> indexedForest (getLatestComponentExplorerViewCallback demoHost None initialBackend)
       = [demoRoot]"
  using explorer_view_reindexes_and_answers [of demoHost None initialBackend]
    explorer_view_reindexes_and_answers [of "demoHost\<lparr>liveForest := []\<rparr>" None initialBackend]
  by (simp add: demo_defs numeral_2_eq_2)

text \<open>C2 at a failing input: the component at position [0] has no property \<open>missing\<close>; on the
  path \<open>missing.name\<close> the handler logs the error, reads \<open>name\<close> of \<open>undefined\<close>, and
  throws a TypeError; no nestedProperties event is emitted.\<close>

theorem nested_properties_missing_segment_throws:
  "getNestedPropertiesCallback demoHost \<lparr>dpElement = [0], dpDirective = None\<rparr>
     [''missing'', ''name''] (indexForest demoHost initialBackend)
   = Inl (TypeError,
          consoleWrite (ConsoleError [''missing'', ''name''] demoRoot)
            (indexForest demoHost initialBackend))"
  by (simp add: getNestedPropertiesCallback_def currentInstance_def indexForest_def
      consoleWrite_def emit_def demo_defs)

text \<open>C3 as stated fails: the snapshot of the code differs from the one that collects
  before the lookups. Collecting first would forget the id 3 of the live injector 100
  and hand it the id 0; the code keeps 3.\<close>

theorem snapshot_order_counterexample:
  "snapshotForest demoHost staleBackend \<noteq> snapshotCollectingFirst demoHost staleBackend
   \<and> reg (snd (snapshotForest demoHost staleBackend))
       = \<lparr>idToInjector = [(3, 100), (0, 13), (1, 200)], injectorsSeen = {}\<rparr>
   \<and> reg (snd (snapshotCollectingFirst demoHost staleBackend))
       = \<lparr>idToInjector = [(0, 100), (1, 13), (2, 200)], injectorsSeen = {2, 1, 0}\<rparr>"
  by (simp add: snapshotForest_def snapshotCollectingFirst_def staleBackend_def indexForest_def
      cleanupInjectorIdMappings_def mapDelete_def demo_defs numeral_2_eq_2 numeral_3_eq_3)

text \<open>C3, as amended. In every full snapshot taken while the host exposes the DI debug
  APIs, the collection pass runs once, after the forest has been serialized: it removes
  every id mapping that the serialization has not marked seen and then clears the
  seen-set.\<close>

theorem snapshot_collects_after_serializing:
  assumes "hasDiDebugAPIs h"
    and "prepareForestForSerialization h True (indexedForest s) (reg s) = (forest, r)"
  shows "snapshotForest h s =
           (forest,
            s\<lparr>reg := \<lparr>idToInjector = filter (\<lambda>kv. fst kv \<in> injectorsSeen r) (idToInjector r),
                       injectorsSeen = {}\<rparr>\<rparr>)"
  using assms by (simp add: snapshotForest_def cleanup_eq)

text \<open>C3, instance: the registry knows injector 100 as 3 and a vanished injector as 7;
  the serialization marks 3, 0 and 1, and the pass after it removes 7 only.\<close>

theorem snapshot_collects_after_serializing_witness:
  "hasDiDebugAPIs demoHost
   \<and> snd (prepareForestForSerialization demoHost True (indexedForest staleBackend) (reg staleBackend))
       = \<lparr>idToInjector = [(3, 100), (7, 55), (0, 13), (1, 200)], injectorsSeen = {1, 0, 3}\<rparr>
   \<and> reg (snd (snapshotForest demoHost staleBackend))
       = \<lparr>idToInjector = [(3, 100), (0, 13), (1, 200)], injectorsSeen = {}\<rparr>"
  using snapshot_collects_after_serializing
    [of demoHost staleBackend
        "fst (prepareForestForSerialization demoHost True (indexedForest staleBackend)
                (reg staleBackend))"
        "snd (prepareForestForSerialization demoHost True (indexedForest staleBackend)
                (reg staleBackend))"]
  by (simp add: staleBackend_def indexForest_def demo_defs numeral_2_eq_2 numeral_3_eq_3)

lemma handlers_foldl_on:
  "handlers (foldl (\<lambda>acc topic. on topic acc) s topics) = handlers s @ topics"
  by (induction topics arbitrary: s) (simp_all add: on_def)

lemma notifier_foldl_on:
  "notifierSubscribed (foldl (\<lambda>acc topic. on topic acc) s topics) = notifierSubscribed s"
  by (induction topics arbitrary: s) (simp_all add: on_def)

text \<open>C4, as amended. Whatever the three readiness conditions say, the thirteen handlers
  from shutdown to logProvider are installed; only the four inspector and highlight
  handlers and the change-notifier subscription wait for all three conditions to hold.\<close>

theorem readiness_gates_inspector_and_notifier_only:
  "handlers (subscribeToClientEvents h s) =
     handlers s
     @ [''shutdown'', ''getLatestComponentExplorerView'', ''queryNgAvailability'',
        ''startProfiling'', ''stopProfiling'', ''setSelectedComponent'',
        ''getNestedProperties'', ''getRoutes'', ''updateState'', ''enableTimingAPI'',
        ''disableTimingAPI'', ''getInjectorProviders'', ''logProvider'']
     @ (if appIsAngularInDevMode h \<and> appIsSupportedAngularVersion h \<and> appIsAngularIvy h
        then [''inspectorStart'', ''inspectorEnd'', ''createHighlightOverlay'',
              ''removeHighlightOverlay'']
        else [])
   \<and> notifierSubscribed (subscribeToClientEvents h s) =
       (notifierSubscribed s
        \<or> (appIsAngularInDevMode h \<and> appIsSupportedAngularVersion h \<and> appIsAngularIvy h))"
  unfolding subscribeToClientEvents_def Let_def
  by (auto simp add: handlers_foldl_on notifier_foldl_on setupInspector_def on_def)

text \<open>C4, instances: a host on the legacy node tagging, and a ready host.\<close>

theorem readiness_gates_inspector_and_notifier_only_witness:
  "handlers (subscribeToClientEvents (demoHost\<lparr>appIsAngularIvy := False\<rparr>) initialBackend) =
     [''shutdown'', ''getLatestComponentExplorerView'', ''queryNgAvailability'',
      ''startProfiling'', ''stopProfiling'', ''setSelectedComponent'',
      ''getNestedProperties'', ''getRoutes'', ''updateState'', ''enableTimingAPI'',
      ''disableTimingAPI'', ''getInjectorProviders'', ''logProvider'']
   \<and> \<not> notifierSubscribed (subscribeToClientEvents (demoHost\<lparr>appIsAngularIvy := False\<rparr>)
                               initialBackend)
   \<and> ''inspectorStart'' \<in> set (handlers (subscribeToClientEvents demoHost initialBackend))
   \<and> notifierSubscribed (subscribeToClientEvents demoHost initialBackend)"
  using readiness_gates_inspector_and_notifier_only
      [of "demoHost\<lparr>appIsAngularIvy := False\<rparr>" initialBackend]
    readiness_gates_inspector_and_notifier_only [of demoHost initialBackend]
  by (simp add: demoHost_def initialBackend_def)

text \<open>C4 as stated fails: with instrumentation disabled, the tree, profiling and injector
  handlers are installed all the same.\<close>

theorem not_ready_handlers_counterexample:
  "\<not> appIsAngularInDevMode (demoHost\<lparr>appIsAngularInDevMode := False\<rparr>)
   \<and> ''getLatestComponentExplorerView''
        \<in> set (handlers (subscribeToClientEvents (demoHost\<lparr>appIsAngularInDevMode := False\<rparr>)
                           initialBackend))
   \<and> ''startProfiling''
        \<in> set (handlers (subscribeToClientEvents (demoHost\<lparr>appIsAngularInDevMode := False\<rparr>)
                           initialBackend))
   \<and> ''getInjectorProviders''
        \<in> set (handlers (subscribeToClientEvents (demoHost\<lparr>appIsAngularInDevMode := False\<rparr>)
                           initialBackend))"
  by (simp add: subscribeToClientEvents_def on_def demoHost_def initialBackend_def)

lemma mapHas_mapGet: "mapHas m k \<longleftrightarrow> (\<exists>v. mapGet m k = Some v)"
  unfolding mapHas_def mapGet_def
  by (metis map_of_eq_None_iff not_None_eq set_map)

text \<open>C6. A getInjectorProviders request with an injector id that the registry does not
  hold changes nothing and emits nothing; otherwise it emits exactly one
  latestInjectorProviders event with the injector and the provider records of the live
  injector, serialized in environment-scope form if and only if the injector's type is
  \<open>environment\<close>.\<close>

theorem injector_providers_unknown_id_is_silent:
  "(\<not> mapHas (idToInjector (reg s)) (injId injector)
      \<longrightarrow> getInjectorProvidersCallback h injector s = s)
   \<and> (mapHas (idToInjector (reg s)) (injId injector)
      \<longrightarrow> (\<exists>live. mapGet (idToInjector (reg s)) (injId injector) = Some live
            \<and> getInjectorProvidersCallback h injector s =
                s\<lparr>outbox := outbox s @
                     [LatestInjectorProviders injector
                        (map (\<lambda>providerRecord.
                                serializeProviderRecord h providerRecord
                                  (injType injector = ''environment''))
                           (getInjectorProviders h live))]\<rparr>))"
proof (intro conjI impI)
  assume "\<not> mapHas (idToInjector (reg s)) (injId injector)"
  then show "getInjectorProvidersCallback h injector s = s"
    by (simp add: getInjectorProvidersCallback_def)
next
  assume has: "mapHas (idToInjector (reg s)) (injId injector)"
  then obtain live where live: "mapGet (idToInjector (reg s)) (injId injector) = Some live"
    using mapHas_mapGet by fastforce
  have "getInjectorProvidersCallback h injector s =
          s\<lparr>outbox := outbox s @
               [LatestInjectorProviders injector
                  (map (\<lambda>providerRecord.
                          serializeProviderRecord h providerRecord
                            (injType injector = ''environment''))
                     (getInjectorProviders h live))]\<rparr>"
    using has live by (simp add: getInjectorProvidersCallback_def emit_def Let_def)
  with live show "\<exists>live. mapGet (idToInjector (reg s)) (injId injector) = Some live
            \<and> getInjectorProvidersCallback h injector s =
                s\<lparr>outbox := outbox s @
                     [LatestInjectorProviders injector
                        (map (\<lambda>providerRecord.
                                serializeProviderRecord h providerRecord
                                  (injType injector = ''environment''))
                           (getInjectorProviders h live))]\<rparr>"
    by blast
qed

lemma demoSnapshot_reg:
  "reg demoSnapshot = \<lparr>idToInjector = [(0, 100), (1, 13), (2, 200)], injectorsSeen = {}\<rparr>"
  by (simp add: demoSnapshot_def getLatestComponentExplorerViewCallback_def snapshotForest_def
      indexForest_def emit_def cleanupInjectorIdMappings_def mapDelete_def demo_defs
      numeral_2_eq_2)

lemma demoSnapshot_outbox: "length (outbox demoSnapshot) = 1"
  by (simp add: demoSnapshot_def getLatestComponentExplorerViewCallback_def snapshotForest_def
      indexForest_def emit_def demo_defs split: prod.splits)

text \<open>C6, instances: an unknown id, the environment injector and the element injector of
  the demo application after a snapshot.\<close>

theorem injector_providers_unknown_id_is_silent_witness:
  "\<not> mapHas (idToInjector (reg demoSnapshot)) 9
   \<and> getInjectorProvidersCallback demoHost
        \<lparr>injId = 9, injName = ''Gone'', injType = ''element''\<rparr> demoSnapshot = demoSnapshot
   \<and> mapHas (idToInjector (reg demoSnapshot)) 2
   \<and> drop 1 (outbox (getInjectorProvidersCallback demoHost
                \<lparr>injId = 2, injName = ''AppModule'', injType = ''environment''\<rparr> demoSnapshot))
       = [LatestInjectorProviders \<lparr>injId = 2, injName = ''AppModule'', injType = ''environment''\<rparr>
            [\<lparr>spToken = ''env'', spIndex = MultiIndex [0, 2]\<rparr>,
             \<lparr>spToken = ''env'', spIndex = SingleIndex 0\<rparr>,
             \<lparr>spToken = ''env'', spIndex = MultiIndex [0, 2]\<rparr>]]
   \<and> drop 1 (outbox (getInjectorProvidersCallback demoHost
                \<lparr>injId = 0, injName = ''AppComponent'', injType = ''element''\<rparr> demoSnapshot))
       = [LatestInjectorProviders \<lparr>injId = 0, injName = ''AppComponent'', injType = ''element''\<rparr>
            [\<lparr>spToken = ''el'', spIndex = SingleIndex 0\<rparr>]]"
  using injector_providers_unknown_id_is_silent
      [of demoSnapshot "\<lparr>injId = 9, injName = ''Gone'', injType = ''element''\<rparr>" demoHost]
    injector_providers_unknown_id_is_silent
      [of demoSnapshot "\<lparr>injId = 2, injName = ''AppModule'', injType = ''environment''\<rparr>" demoHost]
    injector_providers_unknown_id_is_silent
      [of demoSnapshot "\<lparr>injId = 0, injName = ''AppComponent'', injType = ''element''\<rparr>" demoHost]
    demoSnapshot_outbox
  by (auto simp add: demoSnapshot_reg mapHas_def mapGet_def demoHost_def numeral_2_eq_2)




lemma cycles_while_idle:
  "onFrame s = None \<Longrightarrow> runProfiler h s (map Cycle frames) = s"
  by (induction frames) (simp_all add: runProfiler_def instrumentedCycle_def)

lemma cycles_while_recording:
  "onFrame s = Some cb \<Longrightarrow>
   runProfiler h s (map Cycle frames) =
     s\<lparr>outbox := outbox s @ map cb frames, recorded := recorded s @ frames\<rparr>"
proof (induction frames arbitrary: s)
  case Nil
  then show ?case by (simp add: runProfiler_def)
next
  case (Cons f frames)
  have "runProfiler h s (map Cycle (f # frames)) =
          runProfiler h (instrumentedCycle f s) (map Cycle frames)"
    by (simp add: runProfiler_def)
  also have "\<dots> = (instrumentedCycle f s)
                 \<lparr>outbox := outbox (instrumentedCycle f s) @ map cb frames,
                  recorded := recorded (instrumentedCycle f s) @ frames\<rparr>"
    using Cons.prems by (intro Cons.IH) (simp add: instrumentedCycle_def emit_def)
  also have "\<dots> = s\<lparr>outbox := outbox s @ map cb (f # frames),
                    recorded := recorded s @ f # frames\<rparr>"
    using Cons.prems by (simp add: instrumentedCycle_def emit_def)
  finally show ?case .
qed

lemma runProfiler_append:
  "runProfiler h s (xs @ ys) = runProfiler h (runProfiler h s xs) ys"
  by (simp add: runProfiler_def)

lemma runProfiler_Cons:
  "runProfiler h s (x # xs) = runProfiler h (profilerStep h s x) xs"
  by (simp add: runProfiler_def)

lemma session_state:
  assumes "onFrame s = None"
  shows "runProfiler h s (StartProfiling # map Cycle frames) =
           s\<lparr>outbox := outbox s @ map SendProfilerChunk frames,
             recorded := frames, onFrame := Some SendProfilerChunk\<rparr>"
proof -
  have st: "profilerStep h s StartProfiling = s\<lparr>onFrame := Some SendProfilerChunk, recorded := []\<rparr>"
    using assms by (simp add: startProfilingCallback_def startProfiling_def)
  show ?thesis
    unfolding runProfiler_Cons st
    by (subst cycles_while_recording [where cb = SendProfilerChunk]) simp_all
qed

text \<open>C8. From Idle, after startProfiling every frame is already on the bus as one
  sendProfilerChunk when the next input arrives; stopProfiling then adds exactly one
  profilerResults; frames after the stop and frames while Idle put nothing on the bus;
  start, three frames, stop gives three sendProfilerChunk events and then one
  profilerResults; and stopProfiling emits exactly one profilerResults in any state.\<close>

theorem profiler_frames_are_streamed:
  assumes "onFrame s = None"
  shows "outbox (runProfiler h s (StartProfiling # map Cycle frames))
           = outbox s @ map SendProfilerChunk frames
         \<and> outbox (runProfiler h s (StartProfiling # map Cycle frames @ [StopProfiling]))
           = outbox s @ map SendProfilerChunk frames @ [ProfilerResults (aggregateFrames h frames)]
         \<and> outbox (runProfiler h s
                     (StartProfiling # map Cycle frames @ [StopProfiling] @ map Cycle later))
           = outbox s @ map SendProfilerChunk frames @ [ProfilerResults (aggregateFrames h frames)]
         \<and> outbox (runProfiler h s (map Cycle frames)) = outbox s
         \<and> outbox (runProfiler h s [StartProfiling, Cycle f1, Cycle f2, Cycle f3, StopProfiling])
           = outbox s @ [SendProfilerChunk f1, SendProfilerChunk f2, SendProfilerChunk f3,
                         ProfilerResults (aggregateFrames h [f1, f2, f3])]
         \<and> outbox (stopProfilingCallback h s') =
             outbox s' @ [ProfilerResults (aggregateFrames h (recorded s'))]"
proof -
  let ?rec = "runProfiler h s (StartProfiling # map Cycle frames)"
  have rec: "?rec = s\<lparr>outbox := outbox s @ map SendProfilerChunk frames,
                      recorded := frames, onFrame := Some SendProfilerChunk\<rparr>"
    by (rule session_state [OF assms])
  have stop: "runProfiler h s (StartProfiling # map Cycle frames @ [StopProfiling])
                = stopProfilingCallback h ?rec"
    using runProfiler_append [of h s "StartProfiling # map Cycle frames" "[StopProfiling]"]
    by (simp add: runProfiler_def)
  have stopped: "stopProfilingCallback h ?rec =
                   s\<lparr>outbox := outbox s @ map SendProfilerChunk frames
                                @ [ProfilerResults (aggregateFrames h frames)],
                     recorded := [], onFrame := None\<rparr>"
    unfolding rec by (simp add: stopProfilingCallback_def stopProfiling_def emit_def)
  have "runProfiler h s (StartProfiling # map Cycle frames @ StopProfiling # map Cycle later)
          = runProfiler h (stopProfilingCallback h ?rec) (map Cycle later)"
    unfolding stop [symmetric] by (simp add: runProfiler_def)
  also have "\<dots> = stopProfilingCallback h ?rec"
    by (rule cycles_while_idle) (simp add: stopped)
  finally have later:
    "runProfiler h s (StartProfiling # map Cycle frames @ StopProfiling # map Cycle later)
       = stopProfilingCallback h ?rec" .
  have three: "runProfiler h s [StartProfiling, Cycle f1, Cycle f2, Cycle f3, StopProfiling]
               = stopProfilingCallback h
                   (runProfiler h s (StartProfiling # map Cycle [f1, f2, f3]))"
    by (simp add: runProfiler_def)
  have three_state: "runProfiler h s (StartProfiling # map Cycle [f1, f2, f3]) =
           s\<lparr>outbox := outbox s @ map SendProfilerChunk [f1, f2, f3],
             recorded := [f1, f2, f3], onFrame := Some SendProfilerChunk\<rparr>"
    by (rule session_state [OF assms])
  show ?thesis
    apply (intro conjI)
    subgoal by (simp add: rec)
    subgoal by (simp add: stop stopped)
    subgoal by (simp add: later stopped)
    subgoal by (simp add: cycles_while_idle [OF assms])
    subgoal unfolding three three_state
      by (simp add: stopProfilingCallback_def stopProfiling_def emit_def)
    subgoal by (simp add: stopProfilingCallback_def stopProfiling_def emit_def)
    done
qed

text \<open>C8, instance: three frames between start and stop, and two frames while Idle.\<close>

theorem profiler_frames_are_streamed_witness:
  "onFrame initialBackend = None
   \<and> outbox (runProfiler demoHost initialBackend
               [StartProfiling, Cycle (''cd1'', 4), Cycle (''cd2'', 6), Cycle (''cd3'', 5),
                StopProfiling])
       = [SendProfilerChunk (''cd1'', 4), SendProfilerChunk (''cd2'', 6),
          SendProfilerChunk (''cd3'', 5), ProfilerResults (''aggregate'', 15)]
   \<and> outbox (runProfiler demoHost initialBackend (map Cycle [(''cd0'', 1), (''cd1'', 4)])) = []"
  using profiler_frames_are_streamed
    [of initialBackend demoHost "[(''cd0'', 1), (''cd1'', 4)]" "[]"
        "(''cd1'', 4)" "(''cd2'', 6)" "(''cd3'', 5)" initialBackend]
  by (simp add: initialBackend_def demoHost_def)

text \<open>C9, as amended. A logProvider request whose injector id the registry does not hold
  logs nothing. When the registry holds the id and the provider record carries a list
  of indices whose first index is in range, the handler logs the group header, the
  injector, all the referenced provider records, and the resolved value of the first
  listed provider's token only.\<close>

theorem logProvider_multi_logs_first_value:
  "(\<not> mapHas (idToInjector (reg s)) (injId serializedInjector)
      \<longrightarrow> logProvider h serializedInjector serializedProvider s = Inr s)
   \<and> (mapGet (idToInjector (reg s)) (injId serializedInjector) = Some live
      \<longrightarrow> spIndex serializedProvider = MultiIndex (i # rest)
      \<longrightarrow> i < length (getInjectorProviders h live)
      \<longrightarrow> logProvider h serializedInjector serializedProvider s =
            Inr (s\<lparr>console := console s @
                   [ConsoleGroup (''%c'' @ injName serializedInjector)
                      (groupStyle serializedInjector),
                    LogInjector live,
                    LogProviders (map (recordAt (getInjectorProviders h live)) (i # rest)),
                    LogValue (injectorGet h live (prToken (getInjectorProviders h live ! i))),
                    ConsoleGroupEnd]\<rparr>))"
proof (intro conjI impI)
  assume "\<not> mapHas (idToInjector (reg s)) (injId serializedInjector)"
  then show "logProvider h serializedInjector serializedProvider s = Inr s"
    by (simp add: logProvider_def)
next
  assume live: "mapGet (idToInjector (reg s)) (injId serializedInjector) = Some live"
    and multi: "spIndex serializedProvider = MultiIndex (i # rest)"
    and inrange: "i < length (getInjectorProviders h live)"
  from live have has: "mapHas (idToInjector (reg s)) (injId serializedInjector)"
    using mapHas_mapGet by fastforce
  show "logProvider h serializedInjector serializedProvider s =
            Inr (s\<lparr>console := console s @
                   [ConsoleGroup (''%c'' @ injName serializedInjector)
                      (groupStyle serializedInjector),
                    LogInjector live,
                    LogProviders (map (recordAt (getInjectorProviders h live)) (i # rest)),
                    LogValue (injectorGet h live (prToken (getInjectorProviders h live ! i))),
                    ConsoleGroupEnd]\<rparr>)"
    using has live multi inrange
    by (simp add: logProvider_def Let_def consoleWrite_def recordAt_def)
qed

lemma demoSnapshot_console: "console demoSnapshot = []"
  by (simp add: demoSnapshot_def getLatestComponentExplorerViewCallback_def snapshotForest_def
      indexForest_def emit_def demo_defs split: prod.splits)

text \<open>C9, instance: the multi-provider record with indices 0 and 2 of the environment
  injector of the demo application.\<close>

theorem logProvider_multi_logs_first_value_witness:
  "mapGet (idToInjector (reg demoSnapshot)) 2 = Some 200
   \<and> 0 < length (getInjectorProviders demoHost 200)
   \<and> logProvider demoHost \<lparr>injId = 2, injName = ''AppModule'', injType = ''environment''\<rparr>
        \<lparr>spToken = ''env'', spIndex = MultiIndex [0, 2]\<rparr> demoSnapshot
       = Inr (demoSnapshot\<lparr>console :=
                [ConsoleGroup ''%cAppModule''
                   ''color: #f05057; font-size: 1.25rem; font-weight: bold;'',
                 LogInjector 200,
                 LogProviders [Some \<lparr>prToken = 5, prMulti = True\<rparr>,
                               Some \<lparr>prToken = 5, prMulti = True\<rparr>],
                 LogValue (JNum 205),
                 ConsoleGroupEnd]\<rparr>)"
  using logProvider_multi_logs_first_value
    [of demoSnapshot "\<lparr>injId = 2, injName = ''AppModule'', injType = ''environment''\<rparr>"
        demoHost "\<lparr>spToken = ''env'', spIndex = MultiIndex [0, 2]\<rparr>" 200 0 "[2]"]
  by (simp add: demoSnapshot_reg demoSnapshot_console mapGet_def demoHost_def groupStyle_def
      recordAt_def numeral_2_eq_2)

text \<open>C9 as stated fails: for an injector id that the registry does not hold, a request
  with a list of indices logs nothing.\<close>

theorem logProvider_unknown_injector_counterexample:
  "logProvider demoHost \<lparr>injId = 7, injName = ''Gone'', injType = ''environment''\<rparr>
     \<lparr>spToken = ''env'', spIndex = MultiIndex [0, 2]\<rparr> demoSnapshot = Inr demoSnapshot
   \<and> console demoSnapshot = []"
  by (simp add: logProvider_def demoSnapshot_reg demoSnapshot_console mapHas_def)

lemma explorer_view_registry:
  "reg (getLatestComponentExplorerViewCallback h query s)
     = reg (snd (snapshotForest h (indexForest h s)))"
  by (simp add: snapshotForest_reindexed split: prod.splits)

text \<open>C10. When the host does not expose the DI debug APIs, a snapshot leaves the injector
  registry as it was (no mapping is removed) and no node of the serialized forest, at
  any depth, has a resolution path; when it does expose them, every node has one and the
  collection pass has run (the seen-set is empty afterwards).\<close>

theorem without_di_debug_apis_no_paths_no_collection:
  "(\<not> hasDiDebugAPIs h \<longrightarrow>
       reg (getLatestComponentExplorerViewCallback h query s) = reg s
     \<and> list_all2 (projects h False) (liveForest h) (fst (snapshotForest h (indexForest h s))))
   \<and> (hasDiDebugAPIs h \<longrightarrow>
       injectorsSeen (reg (getLatestComponentExplorerViewCallback h query s)) = {}
     \<and> list_all2 (projects h True) (liveForest h) (fst (snapshotForest h (indexForest h s))))"
proof (intro conjI impI)
  assume no: "\<not> hasDiDebugAPIs h"
  have "reg (snd (snapshotForest h (indexForest h s)))
          = snd (prepareForestForSerialization h False (liveForest h) (reg s))"
    using no by (simp add: snapshotForest_def indexForest_def split: prod.splits)
  then show "reg (getLatestComponentExplorerViewCallback h query s) = reg s"
    by (simp add: explorer_view_registry prepare_without_paths)
  show "list_all2 (projects h False) (liveForest h) (fst (snapshotForest h (indexForest h s)))"
    using no prepare_projects [of h False "liveForest h" "reg s"]
    by (simp add: snapshotForest_fst indexForest_def)
next
  assume yes: "hasDiDebugAPIs h"
  then show "injectorsSeen (reg (getLatestComponentExplorerViewCallback h query s)) = {}"
    by (simp add: explorer_view_registry snapshotForest_def cleanup_eq split: prod.splits)
  show "list_all2 (projects h True) (liveForest h) (fst (snapshotForest h (indexForest h s)))"
    using yes prepare_projects [of h True "liveForest h" "reg s"]
    by (simp add: snapshotForest_fst indexForest_def)
qed

text \<open>C10, instances: the same stale registry under a host without and with the DI debug
  APIs.\<close>

theorem without_di_debug_apis_no_paths_no_collection_witness:
  "\<not> hasDiDebugAPIs (demoHost\<lparr>hasDiDebugAPIs := False\<rparr>)
   \<and> reg (getLatestComponentExplorerViewCallback (demoHost\<lparr>hasDiDebugAPIs := False\<rparr>) None
            staleBackend)
       = \<lparr>idToInjector = [(3, 100), (7, 55)], injectorsSeen = {}\<rparr>
   \<and> fst (snapshotForest (demoHost\<lparr>hasDiDebugAPIs := False\<rparr>) staleBackend) =
       [SerializableComponentTreeNode ''app-root''
          (Some \<lparr>scName = ''AppComponent'', scIsElement = False, scId = 1\<rparr>)
          [\<lparr>sdName = ''NgIf'', sdId = 2\<rparr>]
          [SerializableComponentTreeNode ''div'' None [] [] None]
          None]
   \<and> hasDiDebugAPIs demoHost
   \<and> reg (getLatestComponentExplorerViewCallback demoHost None staleBackend)
       = \<lparr>idToInjector = [(3, 100), (0, 13), (1, 200)], injectorsSeen = {}\<rparr>"
  using without_di_debug_apis_no_paths_no_collection
      [of "demoHost\<lparr>hasDiDebugAPIs := False\<rparr>" None staleBackend]
    without_di_debug_apis_no_paths_no_collection [of demoHost None staleBackend]
  by (simp add: explorer_view_registry snapshotForest_def staleBackend_def indexForest_def
      cleanupInjectorIdMappings_def mapDelete_def demo_defs numeral_2_eq_2 numeral_3_eq_3)

end
